theory Spec2Isabelle
  imports Complex_Main
begin

section \<open>Python values shared by the notebooks\<close>

text \<open>
  The repository is a set of Jupyter notebooks that call MNE-Python, MNE-Connectivity and
  NumPy. A notebook cell is straight-line Python; an exception raised by a library call
  ends the cell unless the cell catches it. Exceptions are values of a sum type
  (\<open>Inl\<close> the exception), library calls whose code is outside the repository are
  parameters of the definitions below.
\<close>

datatype exc_class =
  BaseException | Exception | ArithmeticError | ZeroDivisionError | LookupError
  | IndexError | KeyError | TypeError | ValueError | AxisError | RuntimeError
  | NotImplementedError | RecursionError | KeyboardInterrupt


text \<open>An exception value: its class and the text \<open>repr()\<close> gives for it.\<close>

record py_exception =
  exc_cls :: exc_class
  exc_repr :: string


definition bind_exc :: "'e + 'a \<Rightarrow> ('a \<Rightarrow> 'e + 'b) \<Rightarrow> 'e + 'b" where
  "bind_exc m k = (case m of Inl e \<Rightarrow> Inl e | Inr x \<Rightarrow> k x)"

section \<open>float64 arithmetic\<close>

text \<open>
  NumPy arrays of the notebooks hold float64 entries. An entry is modelled by the real
  number it denotes, and an arithmetic operation returns the exact result rounded to the
  nearest number with a 53-bit significand, ties to even (IEEE 754 binary64). The exponent
  range is not bounded: overflow, subnormal numbers, infinities and NaN are outside the
  model.
\<close>

definition rne :: "real \<Rightarrow> int" where
  "rne x = (let f = \<lfloor>x\<rfloor>; d = x - of_int f in
     if d < 1/2 then f else if 1/2 < d then f + 1 else if even f then f else f + 1)"

definition ulp64 :: "real \<Rightarrow> real" where
  "ulp64 x = 2 powr of_int (\<lfloor>log 2 \<bar>x\<bar>\<rfloor> - 52)"

definition fl64 :: "real \<Rightarrow> real" where
  "fl64 x = (if x = 0 then 0 else sgn x * (ulp64 x * of_int (rne (\<bar>x\<bar> / ulp64 x))))"



definition fsub :: "real \<Rightarrow> real \<Rightarrow> real" where
  "fsub x y = fl64 (x - y)"


section \<open>NumPy arrays and elementwise operations with broadcasting\<close>

text \<open>
  An ndarray is its shape and its entries in row-major (C) order. A binary operator on
  two arrays broadcasts: shapes are aligned at the last axis, an axis of extent 1 is
  repeated, a missing leading axis counts as extent 1, and any other mismatch raises
  ValueError.
\<close>

record ndarray =
  shape :: "nat list"
  entries :: "real list"

definition wf_array :: "ndarray \<Rightarrow> bool" where
  "wf_array a = (length (entries a) = prod_list (shape a))"

text \<open>Shapes and indices are handled last axis first.\<close>

fun broadcast_rev :: "nat list \<Rightarrow> nat list \<Rightarrow> nat list option" where
  "broadcast_rev [] ys = Some ys"
| "broadcast_rev (x # xs) [] = Some (x # xs)"
| "broadcast_rev (x # xs) (y # ys) =
     (if x = y \<or> y = 1 then map_option ((#) x) (broadcast_rev xs ys)
      else if x = 1 then map_option ((#) y) (broadcast_rev xs ys)
      else None)"

definition broadcast_shapes :: "nat list \<Rightarrow> nat list \<Rightarrow> nat list option" where
  "broadcast_shapes s t = map_option rev (broadcast_rev (rev s) (rev t))"

fun unravel_rev :: "nat list \<Rightarrow> nat \<Rightarrow> nat list" where
  "unravel_rev [] i = []"
| "unravel_rev (d # ds) i = (i mod d) # unravel_rev ds (i div d)"

text \<open>
  The flat position, in an operand of (reversed) shape \<open>ds\<close>, of the entry that is
  broadcast to the (reversed) index \<open>ks\<close> of the result: an axis of extent 1 is read at
  0, and axes the operand does not have are dropped.
\<close>

fun ravel_rev :: "nat list \<Rightarrow> nat list \<Rightarrow> nat" where
  "ravel_rev (d # ds) (k # ks) = (if d = 1 then 0 else k) + d * ravel_rev ds ks"
| "ravel_rev [] ks = 0"
| "ravel_rev ds [] = 0"

definition bindex :: "nat list \<Rightarrow> nat list \<Rightarrow> nat \<Rightarrow> nat" where
  "bindex s r i = ravel_rev (rev s) (unravel_rev (rev r) i)"

definition np_binop ::
  "(real \<Rightarrow> real \<Rightarrow> real) \<Rightarrow> ndarray \<Rightarrow> ndarray \<Rightarrow> py_exception + ndarray" where
  "np_binop f a b =
     (case broadcast_shapes (shape a) (shape b) of
        None \<Rightarrow> Inl \<lparr>exc_cls = ValueError,
                     exc_repr = ''ValueError(operands could not be broadcast together)''\<rparr>
      | Some r \<Rightarrow> Inr \<lparr>shape = r,
                      entries = map (\<lambda>i. f (entries a ! bindex (shape a) r i)
                                            (entries b ! bindex (shape b) r i))
                                    [0 ..< prod_list r]\<rparr>)"

definition np_subtract :: "ndarray \<Rightarrow> ndarray \<Rightarrow> py_exception + ndarray" where
  "np_subtract = np_binop fsub"


definition np_negative :: "ndarray \<Rightarrow> ndarray" where
  "np_negative a = a\<lparr>entries := map uminus (entries a)\<rparr>"

section \<open>Granger causality notebook: net scores\<close>

text \<open>
  The notebook calls \<open>spectral_connectivity_epochs(epochs, method=[m], indices=..., fmin=5,
  fmax=30, rank=(np.array([5]), np.array([5])), gc_n_lags=20)\<close> four times, with
  \<open>m\<close> one of \<open>"gc"\<close>, \<open>"gc_tr"\<close> and the indices \<open>indices_ab\<close> or \<open>indices_ba\<close>,
  and reads each result with \<open>get_data()\<close>. The library call followed by \<open>get_data()\<close> is
  the parameter \<open>conn\<close>.
  \<^verbatim>\<open>
  indices_ab = (np.array([signals_a]), np.array([signals_b]))  # A => B
  indices_ba = (np.array([signals_b]), np.array([signals_a]))  # B => A
  net_gc = gc_ab.get_data() - gc_ba.get_data()
  net_gc_tr = gc_tr_ab.get_data() - gc_tr_ba.get_data()
  trgc = net_gc - net_gc_tr
  \<close>
\<close>

datatype gc_method = GC | GC_TR

type_synonym indices = "nat list list \<times> nat list list"

definition indices_ab :: "nat list \<Rightarrow> nat list \<Rightarrow> indices" where
  "indices_ab signals_a signals_b = ([signals_a], [signals_b])"

definition indices_ba :: "nat list \<Rightarrow> nat list \<Rightarrow> indices" where
  "indices_ba signals_a signals_b = ([signals_b], [signals_a])"

definition granger_scores ::
  "(gc_method \<Rightarrow> indices \<Rightarrow> py_exception + ndarray) \<Rightarrow> nat list \<Rightarrow> nat list
     \<Rightarrow> py_exception + (ndarray \<times> ndarray \<times> ndarray)" where
  "granger_scores conn signals_a signals_b =
     bind_exc (conn GC (indices_ab signals_a signals_b)) (\<lambda>gc_ab.
     bind_exc (conn GC (indices_ba signals_a signals_b)) (\<lambda>gc_ba.
     bind_exc (np_subtract gc_ab gc_ba) (\<lambda>net_gc.
     bind_exc (conn GC_TR (indices_ab signals_a signals_b)) (\<lambda>gc_tr_ab.
     bind_exc (conn GC_TR (indices_ba signals_a signals_b)) (\<lambda>gc_tr_ba.
     bind_exc (np_subtract gc_tr_ab gc_tr_ba) (\<lambda>net_gc_tr.
     bind_exc (np_subtract net_gc net_gc_tr) (\<lambda>trgc.
     Inr (net_gc, net_gc_tr, trgc))))))))"





section \<open>VAR notebook: residuals\<close>


section \<open>Over-time / over-trials notebook: global connectivity\<close>









section \<open>Event-parsing notebook: the REM annotations\<close>








section \<open>The notebooks as statement lists\<close>

text \<open>
  The claims about the repository as a whole (what the notebooks import, define, call, read
  and write) are about the text of the notebooks. Each notebook is transcribed as the list
  of the statements of its code cells, in order. A statement keeps the names it assigns,
  its call sites in evaluation order (callee as written, arguments elided, with the names
  of the keyword arguments), and the variables it reads (names bound by an import, names of
  functions of the notebook and Python built-ins are left out). Assignments, augmented
  assignments, expression statements, \<open>return\<close> and \<open>yield\<close> are all \<open>Simple\<close>.
\<close>

datatype call = Call (callee: string) (kwargs: "string list")

datatype stmt =
    Import string "string list"
  | FunctionDef string "string list" "stmt list"
  | ClassDef string
  | Simple "string list" "call list" "string list"
  | For "string list" "call list" "string list" "stmt list"
  | IfStmt "call list" "string list" "stmt list" "stmt list"
  | Try "stmt list" "stmt list"
  | ExceptHandler string string "stmt list"
  | Delete "string list"
  | Continue

subsection \<open>The nine notebooks\<close>

text \<open>\<^verbatim>\<open>src/unnamed/part_000\<close>\<close>

definition granger_nb :: "stmt list" where
  "granger_nb = [
    Import ''mne'' [],
    Import ''numpy'' [],
    Import ''matplotlib'' [''pyplot''],
    Import ''mne.datasets.fieldtrip_cmc'' [''data_path''],
    Import ''mne_connectivity'' [''spectral_connectivity_epochs''],
    Simple [''raw''] [Call ''data_path'' [], Call ''mne.io.read_raw_ctf'' []] [],
    Simple [] [Call ''raw.pick'' []] [''raw''],
    Simple [] [Call ''raw.crop'' [], Call ''raw.crop().load_data'' []] [''raw''],
    Simple [] [Call ''raw.notch_filter'' []] [''raw''],
    Simple [] [Call ''raw.resample'' []] [''raw''],
    Simple [''epochs''] [Call ''mne.make_fixed_length_epochs'' [''duration''],
        Call ''mne.make_fixed_length_epochs().load_data'' []] [''raw''],
    Simple [''signals_a''] [Call ''enumerate'' []] [''epochs''],
    Simple [''signals_b''] [Call ''enumerate'' []] [''epochs''],
    Simple [''indices_ab''] [Call ''np.array'' [], Call ''np.array'' []] [''signals_a'',
        ''signals_b''],
    Simple [''indices_ba''] [Call ''np.array'' [], Call ''np.array'' []] [''signals_b'',
        ''signals_a''],
    Simple [''gc_ab''] [Call ''np.array'' [], Call ''np.array'' [],
        Call ''spectral_connectivity_epochs'' [''method'', ''indices'', ''fmin'', ''fmax'',
        ''rank'', ''gc_n_lags'']] [''epochs'', ''indices_ab''],
    Simple [''gc_ba''] [Call ''np.array'' [], Call ''np.array'' [],
        Call ''spectral_connectivity_epochs'' [''method'', ''indices'', ''fmin'', ''fmax'',
        ''rank'', ''gc_n_lags'']] [''epochs'', ''indices_ba''],
    Simple [''freqs''] [] [''gc_ab''],
    Simple [''fig'', ''axis''] [Call ''plt.subplots'' []] [],
    Simple [] [Call ''gc_ab.get_data'' [], Call ''axis.plot'' [''linewidth'']] [''axis'',
        ''freqs'', ''gc_ab''],
    Simple [] [Call ''axis.set_xlabel'' []] [''axis''],
    Simple [] [Call ''axis.set_ylabel'' []] [''axis''],
    Simple [] [Call ''fig.suptitle'' []] [''fig''],
    Simple [''net_gc''] [Call ''gc_ab.get_data'' [], Call ''gc_ba.get_data'' []] [''gc_ab'',
        ''gc_ba''],
    Simple [''fig'', ''axis''] [Call ''plt.subplots'' []] [],
    Simple [] [Call ''axis.plot'' [''linewidth'', ''linestyle'', ''color'']] [''axis'',
        ''freqs''],
    Simple [] [Call ''axis.plot'' [''linewidth'']] [''axis'', ''freqs'', ''net_gc''],
    Simple [] [Call ''axis.set_xlabel'' []] [''axis''],
    Simple [] [Call ''axis.set_ylabel'' []] [''axis''],
    Simple [] [Call ''fig.suptitle'' []] [''fig''],
    Simple [''gc_tr_ab''] [Call ''np.array'' [], Call ''np.array'' [],
        Call ''spectral_connectivity_epochs'' [''method'', ''indices'', ''fmin'', ''fmax'',
        ''rank'', ''gc_n_lags'']] [''epochs'', ''indices_ab''],
    Simple [''gc_tr_ba''] [Call ''np.array'' [], Call ''np.array'' [],
        Call ''spectral_connectivity_epochs'' [''method'', ''indices'', ''fmin'', ''fmax'',
        ''rank'', ''gc_n_lags'']] [''epochs'', ''indices_ba''],
    Simple [''net_gc_tr''] [Call ''gc_tr_ab.get_data'' [], Call ''gc_tr_ba.get_data'' []]
        [''gc_tr_ab'', ''gc_tr_ba''],
    Simple [''trgc''] [] [''net_gc'', ''net_gc_tr''],
    Simple [''fig'', ''axis''] [Call ''plt.subplots'' []] [],
    Simple [] [Call ''axis.plot'' [''linewidth'', ''linestyle'', ''color'']] [''axis'',
        ''freqs''],
    Simple [] [Call ''axis.plot'' [''linewidth'']] [''axis'', ''freqs'', ''trgc''],
    Simple [] [Call ''axis.set_xlabel'' []] [''axis''],
    Simple [] [Call ''axis.set_ylabel'' []] [''axis''],
    Simple [] [Call ''fig.suptitle'' []] [''fig''],
    Simple [''gc_ab_60''] [Call ''np.array'' [], Call ''np.array'' [],
        Call ''spectral_connectivity_epochs'' [''method'', ''indices'', ''fmin'', ''fmax'',
        ''rank'', ''gc_n_lags'']] [''epochs'', ''indices_ab''],
    Simple [''fig'', ''axis''] [Call ''plt.subplots'' []] [],
    Simple [] [Call ''gc_ab.get_data'' [], Call ''axis.plot'' [''linewidth'', ''label'']]
        [''axis'', ''freqs'', ''gc_ab''],
    Simple [] [Call ''gc_ab_60.get_data'' [], Call ''axis.plot'' [''linewidth'', ''label'']]
        [''axis'', ''freqs'', ''gc_ab_60''],
    Simple [] [Call ''axis.set_xlabel'' []] [''axis''],
    Simple [] [Call ''axis.set_ylabel'' []] [''axis''],
    Simple [] [Call ''axis.legend'' []] [''axis''],
    Simple [] [Call ''fig.suptitle'' []] [''fig''],
    Simple [''s''] [Call ''raw.get_data'' [], Call ''np.linalg.svd'' [''compute_uv'']]
        [''raw''],
    Simple [''rank''] [Call ''np.count_nonzero'' []] [''s''],
    Try [
      Simple [] [Call ''spectral_connectivity_epochs'' [''method'', ''indices'', ''fmin'',
          ''fmax'', ''rank'', ''gc_n_lags'', ''verbose'']] [''epochs'', ''indices_ab''],
      Simple [] [Call ''print'' []] []] [
      ExceptHandler ''RuntimeError'' ''error'' [
        Simple [] [Call ''repr'' [], Call ''print'' []] [''error'']]]]"

text \<open>\<^verbatim>\<open>src/unnamed/part_001\<close>\<close>

definition seed_tfr_nb :: "stmt list" where
  "seed_tfr_nb = [
    Import ''os.path'' [],
    Import ''mne'' [],
    Import ''numpy'' [],
    Import ''mne'' [''io''],
    Import ''mne.datasets'' [''sample''],
    Import ''mne.time_frequency'' [''AverageTFRArray''],
    Import ''mne_connectivity'' [''seed_target_indices'', ''spectral_connectivity_epochs''],
    Simple [] [Call ''print'' []] [],
    Simple [''data_path''] [Call ''sample.data_path'' []] [],
    Simple [''raw_fname''] [Call ''op.join'' []] [''data_path''],
    Simple [''event_fname''] [Call ''op.join'' []] [''data_path''],
    Simple [''raw''] [Call ''io.read_raw_fif'' []] [''raw_fname''],
    Simple [''events''] [Call ''mne.read_events'' []] [''event_fname''],
    Simple [''raw''] [] [''raw''],
    Simple [''picks''] [Call ''mne.pick_types'' [''meg'', ''eeg'', ''stim'', ''eog'',
        ''exclude'']] [''raw''],
    Simple [''event_id'', ''tmin'', ''tmax''] [] [],
    Simple [''epochs''] [Call ''dict'' [''grad'', ''eog''], Call ''mne.Epochs'' [''picks'',
        ''baseline'', ''reject'', ''preload'']] [''raw'', ''events'', ''event_id'', ''tmin'',
        ''tmax'', ''picks''],
    Simple [''seed_ch''] [] [],
    Simple [''picks_ch_names''] [] [''raw'', ''picks''],
    Simple [''seed''] [Call ''picks_ch_names.index'' []] [''picks_ch_names'', ''seed_ch''],
    Simple [''targets''] [Call ''len'' [], Call ''np.arange'' []] [''picks''],
    Simple [''indices''] [Call ''seed_target_indices'' []] [''seed'', ''targets''],
    Simple [''cwt_freqs''] [Call ''np.arange'' []] [],
    Simple [''cwt_n_cycles''] [] [''cwt_freqs''],
    Simple [''sfreq''] [] [''raw''],
    Simple [''con''] [Call ''spectral_connectivity_epochs'' [''indices'', ''method'', ''mode'',
        ''sfreq'', ''cwt_freqs'', ''cwt_n_cycles'', ''n_jobs'']] [''epochs'', ''indices'',
        ''sfreq'', ''cwt_freqs'', ''cwt_n_cycles''],
    Simple [''times''] [] [''con''],
    Simple [''freqs''] [] [''con''],
    Simple [''con''] [Call ''con.get_data'' [], Call ''np.where'' []] [''con'', ''indices'',
        ''seed''],
    Simple [''title''] [] [''seed_ch''],
    Simple [''layout''] [Call ''mne.find_layout'' []] [''epochs''],
    Simple [''tfr''] [Call ''con.get_data'' [], Call ''len'' [],
        Call ''AverageTFRArray'' [''nave'']] [''epochs'', ''con'', ''times'', ''freqs''],
    Simple [] [Call ''tfr.plot_topo'' [''fig_facecolor'', ''font_color'', ''border'']]
        [''tfr'']]"

text \<open>\<^verbatim>\<open>src/unnamed/part_002\<close>\<close>

definition coherency_nb :: "stmt list" where
  "coherency_nb = [
    Import ''numpy'' [],
    Import ''matplotlib'' [''pyplot''],
    Import ''mne_connectivity'' [''make_signals_in_freq_bands'', ''seed_target_indices'',
        ''spectral_connectivity_epochs''],
    Simple [''data_delay''] [Call ''make_signals_in_freq_bands'' [''n_seeds'', ''n_targets'',
        ''freq_band'', ''connection_delay'', ''rng_seed'']] [],
    Simple [''data_no_delay''] [Call ''make_signals_in_freq_bands'' [''n_seeds'',
        ''n_targets'', ''freq_band'', ''connection_delay'', ''rng_seed'']] [],
    Simple [''data''] [Call ''data_delay.add_channels'' []] [''data_delay'', ''data_no_delay''],
    Simple [''seeds''] [] [],
    Simple [''targets''] [] [],
    Simple [''bivar_indices''] [Call ''seed_target_indices'' []] [''seeds'', ''targets''],
    Simple [''multivar_indices''] [] [''seeds'', ''targets''],
    Simple [''cacoh'', ''mic''] [Call ''spectral_connectivity_epochs'' [''method'',
        ''indices'', ''sfreq'', ''fmin'', ''fmax'']] [''data'', ''multivar_indices''],
    Simple [''fig'', ''axis''] [Call ''plt.subplots'' []] [],
    Simple [] [Call ''cacoh.get_data'' [], Call ''np.abs'' [],
        Call ''axis.plot'' [''linewidth'', ''label'']] [''axis'', ''cacoh''],
    Simple [] [Call ''mic.get_data'' [], Call ''np.abs'' [], Call ''axis.plot'' [''linewidth'',
        ''label'', ''linestyle'']] [''axis'', ''mic''],
    Simple [] [Call ''axis.set_xlabel'' []] [''axis''],
    Simple [] [Call ''axis.set_ylabel'' []] [''axis''],
    Simple [] [Call ''axis.annotate'' [''xy'']] [''axis''],
    Simple [] [Call ''axis.annotate'' [''xy'']] [''axis''],
    Simple [] [Call ''axis.legend'' [''loc'']] [''axis''],
    Simple [] [Call ''fig.suptitle'' []] [''fig''],
    FunctionDef ''plot_connectivity_circle'' [] [
      Simple [''fig'', ''axis''] [Call ''plt.subplots'' []] [],
      Simple [''t''] [Call ''np.linspace'' []] [],
      Simple [] [Call ''np.cos'' [], Call ''np.sin'' [], Call ''axis.plot'' [''color'',
          ''linewidth'']] [''axis'', ''t''],
      Simple [] [Call ''axis.plot'' [''color'', ''linestyle'']] [''axis''],
      Simple [] [Call ''axis.plot'' [''color'', ''linestyle'']] [''axis''],
      Simple [] [Call ''axis.axis'' []] [''axis''],
      Simple [''fontdict''] [] [],
      Simple [''qpi''] [] [],
      Simple [] [Call ''axis.text'' [''ha'', ''va'', ''fontdict'']] [''axis'', ''fontdict''],
      Simple [] [Call ''axis.text'' [''ha'', ''va'', ''fontdict'']] [''axis'', ''fontdict''],
      Simple [] [Call ''axis.text'' [''ha'', ''va'', ''fontdict'']] [''axis'', ''fontdict''],
      Simple [] [Call ''axis.text'' [''ha'', ''va'', ''fontdict'']] [''axis'', ''qpi'',
          ''fontdict''],
      Simple [] [Call ''axis.text'' [''ha'', ''va'', ''fontdict'']] [''axis'', ''fontdict''],
      Simple [] [Call ''axis.text'' [''ha'', ''va'', ''fontdict'']] [''axis'', ''qpi'',
          ''fontdict''],
      Simple [] [Call ''axis.text'' [''ha'', ''va'', ''fontdict'']] [''axis'', ''fontdict''],
      Simple [] [Call ''axis.text'' [''ha'', ''va'', ''fontdict'']] [''axis'', ''qpi'',
          ''fontdict''],
      Simple [''fontdict''] [] [],
      Simple [] [Call ''axis.text'' [''ha'', ''va'', ''fontdict'']] [''axis'', ''fontdict''],
      Simple [] [Call ''axis.text'' [''ha'', ''va'', ''fontdict'']] [''axis'', ''fontdict''],
      Simple [] [Call ''axis.text'' [''ha'', ''va'', ''fontdict'']] [''axis'', ''fontdict''],
      Simple [] [Call ''axis.text'' [''ha'', ''va'', ''fontdict'']] [''axis'', ''fontdict''],
      Simple [] [Call ''axis.text'' [''ha'', ''va'', ''fontdict'']] [''axis'', ''fontdict''],
      Simple [] [Call ''axis.text'' [''ha'', ''va'', ''fontdict'']] [''axis'', ''fontdict''],
      Simple [] [Call ''axis.text'' [''ha'', ''va'', ''fontdict'']] [''axis'', ''fontdict''],
      Simple [] [Call ''axis.set_aspect'' []] [''axis''],
      Simple [] [] [''fig'', ''axis'']],
    Simple [''freqs''] [] [''cacoh''],
    Simple [''cacoh_10_12''] [Call ''cacoh.get_data'' [], Call ''freqs.index'' [],
        Call ''freqs.index'' [], Call ''np.mean'' []] [''cacoh'', ''freqs''],
    Simple [''cacoh_23_25''] [Call ''cacoh.get_data'' [], Call ''freqs.index'' [],
        Call ''freqs.index'' [], Call ''np.mean'' []] [''cacoh'', ''freqs''],
    Simple [''fig'', ''axis''] [Call ''plot_connectivity_circle'' []] [],
    Simple [] [Call ''np.real'' [], Call ''np.imag'' [], Call ''axis.quiver'' [''units'',
        ''scale'', ''linewidth'', ''color'', ''label'']] [''axis'', ''cacoh_10_12''],
    Simple [] [Call ''np.real'' [], Call ''np.imag'' [], Call ''axis.quiver'' [''units'',
        ''scale'', ''linewidth'', ''color'', ''label'', ''zorder'']] [''axis'',
        ''cacoh_23_25''],
    Simple [] [Call ''axis.legend'' [''loc'', ''bbox_to_anchor'']] [''axis''],
    Simple [''coh'', ''imcoh''] [Call ''spectral_connectivity_epochs'' [''method'',
        ''indices'', ''sfreq'', ''fmin'', ''fmax'']] [''data'', ''bivar_indices''],
    Simple [''coh_mean''] [Call ''coh.get_data'' [], Call ''np.mean'' [''axis'']] [''coh''],
    Simple [''imcoh_mean''] [Call ''imcoh.get_data'' [], Call ''np.abs'' [],
        Call ''np.mean'' [''axis'']] [''imcoh''],
    Simple [''coh_mean_subbed''] [Call ''np.mean'' []] [''coh_mean''],
    Simple [''imcoh_mean_subbed''] [Call ''np.mean'' []] [''imcoh_mean''],
    Simple [''fig'', ''axis''] [Call ''plt.subplots'' []] [],
    Simple [] [Call ''axis.plot'' [''linewidth'', ''label'']] [''axis'', ''coh'',
        ''coh_mean_subbed''],
    Simple [] [Call ''axis.plot'' [''linewidth'', ''label'', ''linestyle'']] [''axis'',
        ''imcoh'', ''imcoh_mean_subbed''],
    Simple [] [Call ''axis.set_xlabel'' []] [''axis''],
    Simple [] [Call ''axis.set_ylabel'' []] [''axis''],
    Simple [] [Call ''axis.annotate'' [''xy'']] [''axis''],
    Simple [] [Call ''axis.annotate'' [''xy'']] [''axis''],
    Simple [] [Call ''axis.legend'' [''loc'']] [''axis''],
    Simple [] [Call ''fig.suptitle'' []] [''fig''],
    Simple [''data_10_12''] [Call ''make_signals_in_freq_bands'' [''n_seeds'', ''n_targets'',
        ''freq_band'', ''connection_delay'', ''rng_seed'']] [],
    Simple [''data_23_25''] [Call ''make_signals_in_freq_bands'' [''n_seeds'', ''n_targets'',
        ''freq_band'', ''connection_delay'', ''rng_seed'']] [],
    Simple [''data''] [Call ''data_10_12.add_channels'' []] [''data_10_12'', ''data_23_25''],
    Simple [''cacoh'', ''mic''] [Call ''spectral_connectivity_epochs'' [''method'',
        ''indices'', ''sfreq'', ''fmin'', ''fmax'']] [''data'', ''multivar_indices''],
    Simple [''freqs''] [] [''cacoh''],
    Simple [''cacoh_10_12''] [Call ''cacoh.get_data'' [], Call ''freqs.index'' [],
        Call ''freqs.index'' [], Call ''np.mean'' []] [''cacoh'', ''freqs''],
    Simple [''cacoh_23_25''] [Call ''cacoh.get_data'' [], Call ''freqs.index'' [],
        Call ''freqs.index'' [], Call ''np.mean'' []] [''cacoh'', ''freqs''],
    Simple [''fig'', ''axis''] [Call ''plot_connectivity_circle'' []] [],
    Simple [] [Call ''np.real'' [], Call ''np.imag'' [], Call ''axis.quiver'' [''units'',
        ''scale'', ''linewidth'', ''color'', ''label'']] [''axis'', ''cacoh_10_12''],
    Simple [] [Call ''np.real'' [], Call ''np.imag'' [], Call ''axis.quiver'' [''units'',
        ''scale'', ''linewidth'', ''color'', ''label'', ''zorder'']] [''axis'',
        ''cacoh_23_25''],
    Simple [] [Call ''axis.legend'' [''loc'', ''bbox_to_anchor'']] [''axis''],
    Simple [''fig'', ''axis''] [Call ''plt.subplots'' []] [],
    Simple [] [Call ''cacoh.get_data'' [], Call ''np.abs'' [],
        Call ''axis.plot'' [''linewidth'', ''label'']] [''axis'', ''cacoh''],
    Simple [] [Call ''mic.get_data'' [], Call ''np.abs'' [], Call ''axis.plot'' [''linewidth'',
        ''label'', ''linestyle'']] [''axis'', ''mic''],
    Simple [] [Call ''axis.set_xlabel'' []] [''axis''],
    Simple [] [Call ''axis.set_ylabel'' []] [''axis''],
    Simple [] [Call ''axis.annotate'' [''xy'']] [''axis''],
    Simple [] [Call ''axis.annotate'' [''xy'']] [''axis''],
    Simple [] [Call ''axis.legend'' [''loc'']] [''axis''],
    Simple [] [Call ''fig.suptitle'' []] [''fig''],
    Simple [''coh'', ''imcoh''] [Call ''spectral_connectivity_epochs'' [''method'',
        ''indices'', ''sfreq'', ''fmin'', ''fmax'']] [''data'', ''bivar_indices''],
    Simple [''coh_mean''] [Call ''coh.get_data'' [], Call ''np.mean'' [''axis'']] [''coh''],
    Simple [''imcoh_mean''] [Call ''imcoh.get_data'' [], Call ''np.abs'' [],
        Call ''np.mean'' [''axis'']] [''imcoh''],
    Simple [''coh_mean_subbed''] [Call ''np.mean'' []] [''coh_mean''],
    Simple [''imcoh_mean_subbed''] [Call ''np.mean'' []] [''imcoh_mean''],
    Simple [''fig'', ''axis''] [Call ''plt.subplots'' []] [],
    Simple [] [Call ''axis.plot'' [''linewidth'', ''label'']] [''axis'', ''coh'',
        ''coh_mean_subbed''],
    Simple [] [Call ''axis.plot'' [''linewidth'', ''label'', ''linestyle'']] [''axis'',
        ''imcoh'', ''imcoh_mean_subbed''],
    Simple [] [Call ''axis.set_xlabel'' []] [''axis''],
    Simple [] [Call ''axis.set_ylabel'' []] [''axis''],
    Simple [] [Call ''axis.annotate'' [''xy'']] [''axis''],
    Simple [] [Call ''axis.annotate'' [''xy'']] [''axis''],
    Simple [] [Call ''axis.legend'' [''loc'']] [''axis''],
    Simple [] [Call ''fig.suptitle'' []] [''fig'']]"

text \<open>\<^verbatim>\<open>src/unnamed/part_003\<close>\<close>

definition var_nb :: "stmt list" where
  "var_nb = [
    Import ''matplotlib.pyplot'' [],
    Import ''mne'' [],
    Import ''numpy'' [],
    Import ''mne'' [''make_fixed_length_epochs''],
    Import ''mne_bids'' [''BIDSPath'', ''read_raw_bids''],
    Import ''mne_connectivity'' [''vector_auto_regression''],
    Simple [''bids_root''] [Call ''mne.datasets.epilepsy_ecog.data_path'' []] [],
    Simple [''bids_path''] [Call ''BIDSPath'' [''root'', ''subject'', ''session'', ''task'',
        ''datatype'', ''extension'']] [''bids_root''],
    Simple [''raw''] [Call ''read_raw_bids'' [''bids_path'', ''verbose'']] [''bids_path''],
    Simple [''line_freq''] [] [''raw''],
    Simple [] [Call ''print'' []] [''line_freq''],
    Simple [] [Call ''raw.pick_types'' [''ecog'']] [''raw''],
    Simple [] [Call ''raw.load_data'' []] [''raw''],
    Simple [] [Call ''raw.notch_filter'' []] [''raw'', ''line_freq''],
    Simple [] [Call ''raw.drop_channels'' []] [''raw''],
    Simple [''events'', ''event_id''] [Call ''mne.events_from_annotations'' []] [''raw''],
    Simple [''onset_id''] [] [''event_id''],
    Simple [''onset_idx''] [Call ''np.argwhere'' []] [''events'', ''onset_id''],
    Simple [''onset_sample''] [Call ''events[onset_idx, 0].squeeze'' []] [''events'',
        ''onset_idx''],
    Simple [''onset_sec''] [] [''onset_sample'', ''raw''],
    Simple [''raw''] [Call ''raw.crop'' [''tmin'', ''tmax'', ''include_tmax'']] [''raw'',
        ''onset_sec''],
    Simple [''epochs''] [Call ''make_fixed_length_epochs'' [''raw'', ''duration'',
        ''overlap'']] [''raw''],
    Simple [''times''] [] [''epochs''],
    Simple [''ch_names''] [] [''epochs''],
    Simple [] [Call ''print'' []] [''epochs''],
    Simple [] [Call ''print'' []] [''epochs''],
    Simple [] [Call ''print'' []] [''epochs''],
    Simple [] [Call ''print'' []] [''epochs''],
    Simple [''conn''] [Call ''epochs.get_data'' [], Call ''vector_auto_regression'' [''data'',
        ''times'', ''names'']] [''epochs'', ''times'', ''ch_names''],
    Simple [] [Call ''print'' []] [''conn''],
    Simple [''predicted_data''] [Call ''epochs.get_data'' [], Call ''conn.predict'' []]
        [''conn'', ''epochs''],
    Simple [''residuals''] [Call ''epochs.get_data'' []] [''epochs'', ''predicted_data''],
    Simple [''fig'', ''ax''] [Call ''plt.subplots'' []] [],
    Simple [] [Call ''residuals.flatten'' [], Call ''ax.plot'' []] [''ax'', ''residuals''],
    Simple [] [Call ''ax.set'' [''title'', ''ylabel'']] [''ax''],
    Simple [''model_order''] [Call ''conn.attrs.get'' []] [''conn''],
    Simple [''t''] [] [''residuals''],
    Simple [''sampled_residuals''] [Call ''np.split'' [], Call ''np.concatenate'' [''axis''],
        Call ''np.concatenate().squeeze'' []] [''residuals'', ''model_order'', ''t''],
    Simple [''rescov''] [Call ''np.cov'' []] [''sampled_residuals''],
    Simple [''fig'', ''ax''] [Call ''plt.subplots'' []] [],
    Simple [''cax''] [Call ''fig.add_axes'' []] [''fig''],
    Simple [''im''] [Call ''ax.imshow'' [''cmap'', ''aspect'', ''interpolation'']] [''ax'',
        ''rescov''],
    Simple [] [Call ''fig.colorbar'' [''cax'', ''orientation'']] [''fig'', ''im'', ''cax''],
    Simple [''conn''] [Call ''epochs.get_data'' [], Call ''vector_auto_regression'' [''data'',
        ''times'', ''names'', ''model'']] [''epochs'', ''times'', ''ch_names''],
    Simple [] [Call ''print'' []] [''conn''],
    Simple [''first_epoch''] [Call ''epochs.get_data'' []] [''epochs''],
    Simple [''predicted_data''] [Call ''conn.predict'' []] [''conn'', ''first_epoch''],
    Simple [''residuals''] [Call ''epochs.get_data'' []] [''epochs'', ''predicted_data''],
    Simple [''fig'', ''ax''] [Call ''plt.subplots'' []] [],
    Simple [] [Call ''residuals.flatten'' [], Call ''ax.plot'' []] [''ax'', ''residuals''],
    Simple [] [Call ''ax.set'' [''title'', ''ylabel'']] [''ax''],
    Simple [''model_order''] [Call ''conn.attrs.get'' []] [''conn''],
    Simple [''t''] [] [''residuals''],
    Simple [''sampled_residuals''] [Call ''np.split'' [], Call ''np.concatenate'' [''axis''],
        Call ''np.concatenate().squeeze'' []] [''residuals'', ''model_order'', ''t''],
    Simple [''rescov''] [Call ''np.cov'' []] [''sampled_residuals''],
    Simple [''fig'', ''ax''] [Call ''plt.subplots'' []] [],
    Simple [''cax''] [Call ''fig.add_axes'' []] [''fig''],
    Simple [''im''] [Call ''ax.imshow'' [''cmap'', ''aspect'', ''interpolation'']] [''ax'',
        ''rescov''],
    Simple [] [Call ''fig.colorbar'' [''cax'', ''orientation'']] [''fig'', ''im'', ''cax'']]"

text \<open>\<^verbatim>\<open>src/EEGMEG3-timefrequency/2/1_mne_inverse_coherence_epochs.ipynb\<close>\<close>

definition inverse_coherence_nb :: "stmt list" where
  "inverse_coherence_nb = [
    Import ''mne'' [],
    Import ''numpy'' [],
    Import ''mne.datasets'' [''sample''],
    Import ''mne.minimum_norm'' [''apply_inverse'', ''apply_inverse_epochs'',
        ''read_inverse_operator''],
    Import ''mne_connectivity'' [''seed_target_indices'', ''spectral_connectivity_epochs''],
    Simple [] [Call ''print'' []] [],
    Simple [''data_path''] [Call ''sample.data_path'' []] [],
    Simple [''subjects_dir''] [] [''data_path''],
    Simple [''fname_inv''] [] [''data_path''],
    Simple [''fname_raw''] [] [''data_path''],
    Simple [''fname_event''] [] [''data_path''],
    Simple [''label_name_lh''] [] [],
    Simple [''fname_label_lh''] [] [''data_path'', ''label_name_lh''],
    Simple [''event_id'', ''tmin'', ''tmax''] [] [],
    Simple [''method''] [] [],
    Simple [''inverse_operator''] [Call ''read_inverse_operator'' []] [''fname_inv''],
    Simple [''label_lh''] [Call ''mne.read_label'' []] [''fname_label_lh''],
    Simple [''raw''] [Call ''mne.io.read_raw_fif'' []] [''fname_raw''],
    Simple [''events''] [Call ''mne.read_events'' []] [''fname_event''],
    Simple [''raw''] [] [''raw''],
    Simple [''picks''] [Call ''mne.pick_types'' [''meg'', ''eeg'', ''stim'', ''eog'',
        ''exclude'']] [''raw''],
    Simple [''epochs''] [Call ''dict'' [''mag'', ''grad'', ''eog''],
        Call ''mne.Epochs'' [''picks'', ''baseline'', ''reject'']] [''raw'', ''events'',
        ''event_id'', ''tmin'', ''tmax'', ''picks''],
    Simple [''snr''] [] [],
    Simple [''lambda2''] [] [''snr''],
    Simple [''evoked''] [Call ''epochs.average'' []] [''epochs''],
    Simple [''stc''] [Call ''apply_inverse'' [''pick_ori'']] [''evoked'', ''inverse_operator'',
        ''lambda2'', ''method''],
    Simple [''stc_label''] [Call ''stc.in_label'' []] [''stc'', ''label_lh''],
    Simple [''src_pow''] [Call ''np.sum'' [''axis'']] [''stc_label''],
    Simple [''seed_vertno''] [Call ''np.argmax'' []] [''stc_label'', ''src_pow''],
    Simple [''seed_idx''] [Call ''np.searchsorted'' []] [''stc'', ''seed_vertno''],
    Simple [''n_sources''] [] [''stc''],
    Simple [''indices''] [Call ''np.arange'' [], Call ''seed_target_indices'' []]
        [''seed_idx'', ''n_sources''],
    Simple [''snr''] [] [],
    Simple [''lambda2''] [] [''snr''],
    Simple [''stcs''] [Call ''apply_inverse_epochs'' [''pick_ori'', ''return_generator'']]
        [''epochs'', ''inverse_operator'', ''lambda2'', ''method''],
    Simple [''fmin''] [] [],
    Simple [''fmax''] [] [],
    Simple [''sfreq''] [] [''raw''],
    Simple [''coh''] [Call ''spectral_connectivity_epochs'' [''method'', ''mode'', ''indices'',
        ''sfreq'', ''fmin'', ''fmax'', ''faverage'', ''n_jobs'']] [''stcs'', ''indices'',
        ''sfreq'', ''fmin'', ''fmax''],
    Simple [''freqs''] [] [''coh''],
    Simple [] [Call ''print'' []] [],
    Simple [] [Call ''print'' []] [''freqs''],
    Simple [] [Call ''print'' []] [],
    Simple [] [Call ''print'' []] [''freqs''],
    Simple [''tmin''] [Call ''np.mean'' []] [''freqs''],
    Simple [''tstep''] [Call ''np.mean'' []] [''freqs'', ''tmin''],
    Simple [''coh_stc''] [Call ''coh.get_data'' [], Call ''mne.SourceEstimate'' [''vertices'',
        ''tmin'', ''tstep'', ''subject'']] [''coh'', ''stc'', ''tmin'', ''tstep''],
    Simple [''brain''] [Call ''dict'' [''kind'', ''lims''],
        Call ''coh_stc.plot'' [''time_label'', ''subjects_dir'', ''clim'']] [''coh_stc'',
        ''subjects_dir''],
    Simple [] [Call ''brain.show_view'' []] [''brain'']]"

text \<open>\<^verbatim>\<open>src/EEGMEG3-timefrequency/2/2_mne_inverse_connectivity_spectrum.ipynb\<close>\<close>

definition inverse_spectrum_nb :: "stmt list" where
  "inverse_spectrum_nb = [
    Import ''matplotlib.pyplot'' [],
    Import ''mne'' [],
    Import ''mne.datasets'' [''sample''],
    Import ''mne.minimum_norm'' [''apply_inverse_epochs'', ''read_inverse_operator''],
    Import ''mne_connectivity'' [''spectral_connectivity_epochs''],
    Simple [] [Call ''print'' []] [],
    Simple [''data_path''] [Call ''sample.data_path'' []] [],
    Simple [''subjects_dir''] [] [''data_path''],
    Simple [''fname_inv''] [] [''data_path''],
    Simple [''fname_raw''] [] [''data_path''],
    Simple [''fname_event''] [] [''data_path''],
    Simple [''inverse_operator''] [Call ''read_inverse_operator'' []] [''fname_inv''],
    Simple [''raw''] [Call ''mne.io.read_raw_fif'' []] [''fname_raw''],
    Simple [''events''] [Call ''mne.read_events'' []] [''fname_event''],
    Simple [''raw''] [] [''raw''],
    Simple [''picks''] [Call ''mne.pick_types'' [''meg'', ''eeg'', ''stim'', ''eog'',
        ''exclude'']] [''raw''],
    Simple [''event_id'', ''tmin'', ''tmax''] [] [],
    Simple [''epochs''] [Call ''dict'' [''mag'', ''grad'', ''eog''],
        Call ''mne.Epochs'' [''picks'', ''baseline'', ''reject'']] [''raw'', ''events'',
        ''event_id'', ''tmin'', ''tmax'', ''picks''],
    Simple [''snr''] [] [],
    Simple [''lambda2''] [] [''snr''],
    Simple [''method''] [] [],
    Simple [''stcs''] [Call ''apply_inverse_epochs'' [''pick_ori'', ''return_generator'']]
        [''epochs'', ''inverse_operator'', ''lambda2'', ''method''],
    Simple [''names''] [] [],
    Simple [''labels''] [Call ''mne.read_label'' []] [''data_path'', ''names''],
    Simple [''src''] [] [''inverse_operator''],
    Simple [''label_ts''] [Call ''mne.extract_label_time_course'' [''mode'',
        ''return_generator'']] [''stcs'', ''labels'', ''src''],
    Simple [''fmin'', ''fmax''] [] [],
    Simple [''sfreq''] [] [''raw''],
    Simple [''con''] [Call ''spectral_connectivity_epochs'' [''method'', ''mode'', ''sfreq'',
        ''fmin'', ''fmax'', ''mt_adaptive'', ''n_jobs'']] [''label_ts'', ''sfreq'', ''fmin'',
        ''fmax''],
    Simple [''freqs''] [] [''con''],
    Simple [''n_rows'', ''n_cols''] [Call ''con.get_data'' [''output'']] [''con''],
    Simple [''fig'', ''axes''] [Call ''plt.subplots'' [''sharex'', ''sharey'']] [''n_rows'',
        ''n_cols''],
    For [''i''] [Call ''range'' []] [''n_rows''] [
      For [''j''] [Call ''range'' []] [''i''] [
        IfStmt [] [''i'', ''j''] [
          Simple [] [Call ''axes[i, j].set_axis_off'' []] [''axes'', ''i'', ''j''],
          Continue] [],
        Simple [] [Call ''con.get_data'' [''output''], Call ''axes[i, j].plot'' []] [''axes'',
            ''i'', ''j'', ''freqs'', ''con''],
        Simple [] [Call ''con.get_data'' [''output''], Call ''axes[j, i].plot'' []] [''axes'',
            ''j'', ''i'', ''freqs'', ''con''],
        IfStmt [] [''j''] [
          Simple [] [Call ''axes[i, j].set_ylabel'' []] [''axes'', ''i'', ''j'', ''names''],
          Simple [] [Call ''axes[0, i].set_title'' []] [''axes'', ''i'', ''names'']] [],
        IfStmt [] [''i'', ''n_rows''] [
          Simple [] [Call ''axes[i, j].set_xlabel'' []] [''axes'', ''i'', ''j'', ''names'']] [],
        Simple [] [Call ''axes[i, j].set'' [''xlim'', ''ylim'']] [''axes'', ''i'', ''j'',
            ''fmin'', ''fmax''],
        Simple [] [Call ''axes[j, i].set'' [''xlim'', ''ylim'']] [''axes'', ''j'', ''i'',
            ''fmin'', ''fmax''],
        For [''f''] [] [] [
          Simple [] [Call ''axes[i, j].axvline'' [''color'']] [''axes'', ''i'', ''j'', ''f''],
          Simple [] [Call ''axes[j, i].axvline'' [''color'']] [''axes'', ''j'', ''i'',
              ''f'']]]],
    Simple [] [Call ''plt.tight_layout'' []] [],
    Simple [] [Call ''plt.show'' []] []]"

text \<open>\<^verbatim>\<open>src/EEGMEG3-timefrequency/2/5_mne_inverse_envelope_correlation.ipynb\<close>\<close>

definition envelope_nb :: "stmt list" where
  "envelope_nb = [
    Import ''os.path'' [],
    Import ''matplotlib.pyplot'' [],
    Import ''mne'' [],
    Import ''numpy'' [],
    Import ''mne.minimum_norm'' [''apply_inverse_epochs'', ''make_inverse_operator''],
    Import ''mne.preprocessing'' [''compute_proj_ecg'', ''compute_proj_eog''],
    Import ''mne_connectivity'' [],
    Import ''mne_connectivity'' [''envelope_correlation''],
    Simple [''data_path''] [Call ''mne.datasets.brainstorm.bst_resting.data_path'' []] [],
    Simple [''subjects_dir''] [Call ''op.join'' []] [''data_path''],
    Simple [''subject''] [] [],
    Simple [''trans''] [Call ''op.join'' []] [''data_path''],
    Simple [''src''] [Call ''op.join'' []] [''subjects_dir'', ''subject''],
    Simple [''bem''] [Call ''op.join'' []] [''subjects_dir'', ''subject''],
    Simple [''raw_fname''] [Call ''op.join'' []] [''data_path''],
    Simple [''raw''] [Call ''mne.io.read_raw_ctf'' [''verbose'']] [''raw_fname''],
    Simple [] [Call ''raw.crop'' [], Call ''raw.crop().pick_types'' [''meg'', ''eeg''],
        Call ''raw.crop().pick_types().load_data'' [],
        Call ''raw.crop().pick_types().load_data().resample'' []] [''raw''],
    Simple [] [Call ''raw.apply_gradient_compensation'' []] [''raw''],
    Simple [''projs_ecg'', ''_''] [Call ''compute_proj_ecg'' [''n_grad'', ''n_mag'']] [''raw''],
    Simple [''projs_eog'', ''_''] [Call ''compute_proj_eog'' [''n_grad'', ''n_mag'',
        ''ch_name'']] [''raw''],
    Simple [] [Call ''raw.add_proj'' []] [''raw'', ''projs_ecg'', ''projs_eog''],
    Simple [] [Call ''raw.apply_proj'' []] [''raw''],
    Simple [] [Call ''raw.filter'' []] [''raw''],
    Simple [''cov''] [Call ''mne.compute_raw_covariance'' []] [''raw''],
    Simple [''src''] [Call ''mne.read_source_spaces'' []] [''src''],
    Simple [''fwd''] [Call ''mne.make_forward_solution'' [''verbose'']] [''raw'', ''trans'',
        ''src'', ''bem''],
    Delete [''src''],
    Simple [''inv''] [Call ''make_inverse_operator'' []] [''raw'', ''fwd'', ''cov''],
    Delete [''fwd''],
    Simple [''duration''] [] [],
    Simple [''events''] [Call ''mne.make_fixed_length_events'' [''duration'']] [''raw'',
        ''duration''],
    Simple [''tmax''] [] [''duration'', ''raw''],
    Simple [''epochs''] [Call ''dict'' [''mag''], Call ''mne.Epochs'' [''events'', ''tmin'',
        ''tmax'', ''baseline'', ''reject'']] [''raw'', ''events'', ''tmax''],
    Simple [''sfreq''] [] [''epochs''],
    Delete [''raw'', ''projs_ecg'', ''projs_eog''],
    Simple [''labels''] [Call ''mne.read_labels_from_annot'' [''subjects_dir'']] [''subject'',
        ''subjects_dir''],
    Simple [''stcs''] [Call ''apply_inverse_epochs'' [''lambda2'', ''pick_ori'',
        ''return_generator'']] [''epochs'', ''inv''],
    Simple [''label_ts''] [Call ''mne.extract_label_time_course'' [''return_generator'']]
        [''stcs'', ''labels'', ''inv''],
    Delete [''stcs''],
    FunctionDef ''bp_gen'' [''label_ts''] [
      For [''ts''] [] [''label_ts''] [
        Simple [] [Call ''mne.filter.filter_data'' []] [''ts'', ''sfreq'']]],
    Simple [''corr_obj''] [Call ''bp_gen'' [],
        Call ''envelope_correlation'' [''orthogonalize'']] [''label_ts''],
    Simple [''corr''] [Call ''corr_obj.combine'' []] [''corr_obj''],
    Simple [''corr''] [Call ''corr.get_data'' [''output'']] [''corr''],
    FunctionDef ''plot_corr'' [''corr'', ''title''] [
      Simple [''fig'', ''ax''] [Call ''plt.subplots'' [''figsize'', ''constrained_layout'']] [],
      Simple [] [Call ''np.percentile'' [], Call ''ax.imshow'' [''cmap'', ''clim'']] [''ax'',
          ''corr''],
      Simple [] [Call ''fig.suptitle'' []] [''fig'', ''title'']],
    Simple [] [Call ''plot_corr'' []] [''corr''],
    FunctionDef ''plot_degree'' [''corr'', ''title''] [
      Simple [''threshold_prop''] [] [],
      Simple [''degree''] [Call ''mne_connectivity.degree'' [''threshold_prop'']] [''corr'',
          ''threshold_prop''],
      Simple [''stc''] [Call ''mne.labels_to_stc'' []] [''labels'', ''degree''],
      Simple [''stc''] [Call ''mne.Label'' [''hemi''], Call ''mne.Label'' [''hemi''],
          Call ''stc.in_label'' []] [''stc'', ''inv''],
      Simple [] [Call ''dict'' [''kind'', ''lims''], Call ''stc.plot'' [''clim'', ''colormap'',
          ''subjects_dir'', ''views'', ''hemi'', ''smoothing_steps'', ''time_label'']]
          [''stc'', ''subjects_dir'', ''title'']],
    Simple [''brain''] [Call ''plot_degree'' []] [''corr''],
    Simple [''labels''] [Call ''mne.read_labels_from_annot'' [''subjects_dir'']] [''subject'',
        ''subjects_dir''],
    Simple [''stcs''] [Call ''apply_inverse_epochs'' [''lambda2'', ''pick_ori'',
        ''return_generator'']] [''epochs'', ''inv''],
    Simple [''label_ts''] [Call ''mne.extract_label_time_course'' [''return_generator'']]
        [''stcs'', ''labels'', ''inv''],
    Delete [''stcs'', ''epochs''],
    Simple [''label_ts_orth''] [Call ''mne_connectivity.envelope.symmetric_orth'' []]
        [''label_ts''],
    Simple [''corr_obj''] [Call ''bp_gen'' [],
        Call ''envelope_correlation'' [''orthogonalize'']] [''label_ts_orth''],
    Simple [''corr''] [Call ''corr_obj.combine'' []] [''corr_obj''],
    Simple [''corr''] [Call ''corr.get_data'' [''output'']] [''corr''],
    Simple [''corr''] [] [''corr''],
    Simple [''corr''] [Call ''np.abs'' []] [''corr''],
    Simple [] [Call ''plot_corr'' []] [''corr''],
    Simple [] [Call ''plot_degree'' []] [''corr'']]"

text \<open>\<^verbatim>\<open>src/EEGMEG3-timefrequency/2/11_compare_connectivity_over_time_over_trial.ipynb\<close>\<close>

definition compare_nb :: "stmt list" where
  "compare_nb = [
    Import ''matplotlib.pyplot'' [],
    Import ''mne'' [],
    Import ''numpy'' [],
    Import ''mne.datasets'' [''sample''],
    Import ''mne_connectivity'' [''spectral_connectivity_epochs'',
        ''spectral_connectivity_time''],
    Import ''mne_connectivity.viz'' [''plot_sensors_connectivity''],
    Simple [''rng''] [Call ''np.random.default_rng'' []] [],
    Simple [] [Call ''print'' []] [],
    Simple [''n_epochs''] [] [],
    Simple [''n_channels''] [] [],
    Simple [''n_times''] [] [],
    Simple [''sfreq''] [] [],
    Simple [''data''] [Call ''rng.random'' []] [''rng'', ''n_epochs'', ''n_channels'',
        ''n_times''],
    For [''i''] [Call ''range'' []] [''n_epochs''] [
      Simple [''data''] [] [''data'', ''i'']],
    Simple [''ch_names''] [] [],
    Simple [''info''] [Call ''mne.create_info'' [''ch_types'']] [''ch_names'', ''sfreq''],
    Simple [''data_epoch''] [Call ''mne.EpochsArray'' []] [''data'', ''info''],
    Simple [] [Call ''data_epoch.plot'' [''scalings'']] [''data_epoch''],
    Simple [''Freq_Bands''] [] [],
    Simple [''n_freq_bands''] [Call ''len'' []] [''Freq_Bands''],
    Simple [''min_freq''] [Call ''Freq_Bands.values'' [], Call ''list'' [],
        Call ''np.min'' []] [''Freq_Bands''],
    Simple [''max_freq''] [Call ''Freq_Bands.values'' [], Call ''list'' [],
        Call ''np.max'' []] [''Freq_Bands''],
    Simple [''freqs''] [Call ''int'' [], Call ''np.linspace'' []] [''min_freq'', ''max_freq''],
    Simple [''fmin''] [Call ''Freq_Bands.values'' [], Call ''list'' [], Call ''len'' [],
        Call ''range'' [], Call ''tuple'' []] [''Freq_Bands''],
    Simple [''fmax''] [Call ''Freq_Bands.values'' [], Call ''list'' [], Call ''len'' [],
        Call ''range'' [], Call ''tuple'' []] [''Freq_Bands''],
    Simple [''connectivity_methods''] [] [],
    Simple [''n_con_methods''] [Call ''len'' []] [''connectivity_methods''],
    Simple [''con_epochs_array''] [Call ''np.zeros'' []] [''n_con_methods'', ''n_channels'',
        ''n_freq_bands'', ''n_times''],
    Simple [''con_epochs_array''] [] [''con_epochs_array''],
    Simple [''con_epochs''] [Call ''spectral_connectivity_epochs'' [''method'', ''sfreq'',
        ''mode'', ''cwt_freqs'', ''fmin'', ''fmax'', ''faverage'']] [''data_epoch'',
        ''connectivity_methods'', ''sfreq'', ''freqs'', ''fmin'', ''fmax''],
    For [''c''] [Call ''range'' []] [''n_con_methods''] [
      Simple [''con_epochs_array''] [Call ''con_epochs[c].get_data'' [''output'']]
          [''con_epochs'', ''c'', ''con_epochs_array'']],
    Simple [''con_epochs_array''] [Call ''np.mean'' [''axis'']] [''con_epochs_array''],
    Simple [''foi''] [Call ''Freq_Bands.keys'' [], Call ''list'' [], Call ''list().index'' []]
        [''Freq_Bands''],
    FunctionDef ''plot_con_matrix'' [''con_data'', ''n_con_methods''] [
      Simple [''fig'', ''ax''] [Call ''plt.subplots'' [''figsize'']] [''n_con_methods''],
      For [''c''] [Call ''range'' []] [''n_con_methods''] [
        Simple [''con_plot''] [Call ''ax[c].imshow'' [''cmap'', ''vmin'', ''vmax'']] [''ax'',
            ''c'', ''con_data'', ''foi''],
        Simple [] [Call ''ax[c].set_title'' []] [''ax'', ''c'', ''connectivity_methods''],
        Simple [] [Call ''fig.colorbar'' [''ax'', ''shrink'', ''label'']] [''fig'',
            ''con_plot'', ''ax'', ''c''],
        Simple [] [Call ''len'' [], Call ''range'' [], Call ''ax[c].set_xticks'' []] [''ax'',
            ''c'', ''ch_names''],
        Simple [] [Call ''ax[c].set_xticklabels'' []] [''ax'', ''c'', ''ch_names''],
        Simple [] [Call ''len'' [], Call ''range'' [], Call ''ax[c].set_yticks'' []] [''ax'',
            ''c'', ''ch_names''],
        Simple [] [Call ''ax[c].set_yticklabels'' []] [''ax'', ''c'', ''ch_names''],
        Simple [] [Call ''print'' []] [''connectivity_methods'', ''c'', ''con_data'', ''foi'']],
      Simple [] [] [''fig'']],
    Simple [] [Call ''plot_con_matrix'' []] [''con_epochs_array'', ''n_con_methods''],
    Simple [''con_time_array''] [Call ''np.zeros'' []] [''n_con_methods'', ''n_epochs'',
        ''n_channels'', ''n_freq_bands''],
    Simple [''con_time_array''] [] [''con_time_array''],
    Simple [''con_time''] [Call ''spectral_connectivity_time'' [''method'', ''sfreq'',
        ''mode'', ''fmin'', ''fmax'', ''faverage'']] [''data_epoch'', ''freqs'',
        ''connectivity_methods'', ''sfreq'', ''fmin'', ''fmax''],
    For [''c''] [Call ''range'' []] [''n_con_methods''] [
      Simple [''con_time_array''] [Call ''con_time[c].get_data'' [''output'']] [''con_time'',
          ''c'', ''con_time_array'']],
    Simple [''con_time_array''] [Call ''np.mean'' [''axis'']] [''con_time_array''],
    Simple [''foi''] [Call ''Freq_Bands.keys'' [], Call ''list'' [], Call ''list().index'' []]
        [''Freq_Bands''],
    Simple [] [Call ''plot_con_matrix'' []] [''con_time_array'', ''n_con_methods''],
    For [''i''] [Call ''range'' []] [''n_epochs''] [
      For [''c''] [Call ''range'' []] [''n_channels''] [
        Simple [''wave_freq''] [] [],
        Simple [''epoch_len''] [] [''n_times'', ''sfreq''],
        Simple [''phase''] [Call ''rng.random'' []] [''rng''],
        Simple [''x''] [Call ''np.linspace'' []] [''wave_freq'', ''epoch_len'', ''phase'',
            ''n_times''],
        Simple [''data''] [Call ''np.sin'' [], Call ''np.squeeze'' []] [''x'', ''data'', ''i'',
            ''c'']]],
    Simple [''data_epoch''] [Call ''mne.EpochsArray'' []] [''data'', ''info''],
    Simple [] [Call ''data_epoch.plot'' [''scalings'', ''n_epochs'']] [''data_epoch''],
    Simple [''con_epochs_array''] [Call ''np.zeros'' []] [''n_con_methods'', ''n_channels'',
        ''n_freq_bands'', ''n_times''],
    Simple [''con_epochs_array''] [] [''con_epochs_array''],
    Simple [''con_epochs''] [Call ''spectral_connectivity_epochs'' [''method'', ''sfreq'',
        ''mode'', ''cwt_freqs'', ''fmin'', ''fmax'', ''faverage'']] [''data_epoch'',
        ''connectivity_methods'', ''sfreq'', ''freqs'', ''fmin'', ''fmax''],
    For [''c''] [Call ''range'' []] [''n_con_methods''] [
      Simple [''con_epochs_array''] [Call ''con_epochs[c].get_data'' [''output'']]
          [''con_epochs'', ''c'', ''con_epochs_array'']],
    Simple [''con_epochs_array''] [Call ''np.mean'' [''axis'']] [''con_epochs_array''],
    Simple [''foi''] [Call ''Freq_Bands.keys'' [], Call ''list'' [], Call ''list().index'' []]
        [''Freq_Bands''],
    Simple [] [Call ''plot_con_matrix'' []] [''con_epochs_array'', ''n_con_methods''],
    Simple [''con_time_array''] [Call ''np.zeros'' []] [''n_con_methods'', ''n_epochs'',
        ''n_channels'', ''n_freq_bands''],
    Simple [''con_time_array''] [] [''con_time_array''],
    Simple [''con_time''] [Call ''spectral_connectivity_time'' [''method'', ''sfreq'',
        ''fmin'', ''fmax'', ''faverage'']] [''data_epoch'', ''freqs'',
        ''connectivity_methods'', ''sfreq'', ''fmin'', ''fmax''],
    For [''c''] [Call ''range'' []] [''n_con_methods''] [
      Simple [''con_time_array''] [Call ''con_time[c].get_data'' [''output'']] [''con_time'',
          ''c'', ''con_time_array'']],
    Simple [''con_time_array''] [Call ''np.mean'' [''axis'']] [''con_time_array''],
    Simple [''foi''] [Call ''Freq_Bands.keys'' [], Call ''list'' [], Call ''list().index'' []]
        [''Freq_Bands''],
    Simple [] [Call ''plot_con_matrix'' []] [''con_time_array'', ''n_con_methods''],
    Simple [''data_path''] [Call ''sample.data_path'' []] [],
    Simple [''raw_fname''] [] [''data_path''],
    Simple [''event_fname''] [] [''data_path''],
    Simple [''raw''] [Call ''mne.io.read_raw_fif'' []] [''raw_fname''],
    Simple [''events''] [Call ''mne.read_events'' []] [''event_fname''],
    Simple [''picks''] [Call ''mne.pick_types'' [''meg'', ''eeg'', ''stim'', ''eog'',
        ''exclude'']] [''raw''],
    Simple [''event_id'', ''tmin'', ''tmax''] [] [],
    Simple [''epochs''] [Call ''mne.Epochs'' [''picks'', ''baseline'']] [''raw'', ''events'',
        ''event_id'', ''tmin'', ''tmax'', ''picks''],
    Simple [] [Call ''epochs.load_data'' []] [''epochs''],
    Simple [''sfreq''] [] [''epochs''],
    Simple [''tmin''] [] [],
    Simple [''Freq_Bands''] [] [],
    Simple [''n_freq_bands''] [Call ''len'' []] [''Freq_Bands''],
    Simple [''min_freq''] [Call ''Freq_Bands.values'' [], Call ''list'' [],
        Call ''np.min'' []] [''Freq_Bands''],
    Simple [''max_freq''] [Call ''Freq_Bands.values'' [], Call ''list'' [],
        Call ''np.max'' []] [''Freq_Bands''],
    Simple [''freqs''] [Call ''int'' [], Call ''np.linspace'' []] [''min_freq'', ''max_freq''],
    Simple [''fmin''] [Call ''Freq_Bands.values'' [], Call ''list'' [], Call ''len'' [],
        Call ''range'' [], Call ''tuple'' []] [''Freq_Bands''],
    Simple [''fmax''] [Call ''Freq_Bands.values'' [], Call ''list'' [], Call ''len'' [],
        Call ''range'' [], Call ''tuple'' []] [''Freq_Bands''],
    Simple [''connectivity_methods''] [] [],
    Simple [''n_con_methods''] [Call ''len'' []] [''connectivity_methods''],
    Simple [''con_epochs''] [Call ''spectral_connectivity_epochs'' [''method'', ''sfreq'',
        ''mode'', ''cwt_freqs'', ''fmin'', ''fmax'', ''faverage'', ''tmin'',
        ''cwt_n_cycles'']] [''epochs'', ''connectivity_methods'', ''sfreq'', ''freqs'',
        ''fmin'', ''fmax'', ''tmin''],
    Simple [''n_channels''] [] [''epochs''],
    Simple [''times''] [] [''epochs'', ''tmin''],
    Simple [''n_connections''] [] [''n_channels''],
    Simple [''con_epochs_raveled_array''] [Call ''con_epochs.get_data'' [''output'']]
        [''con_epochs''],
    Simple [''global_con_epochs''] [Call ''np.sum'' [''axis'']] [''con_epochs_raveled_array'',
        ''n_connections''],
    Simple [''global_con_epochs''] [] [''global_con_epochs''],
    Simple [''fig''] [Call ''plt.figure'' []] [],
    Simple [] [Call ''plt.plot'' []] [''times'', ''global_con_epochs''],
    Simple [] [Call ''plt.xlabel'' []] [],
    Simple [] [Call ''plt.ylabel'' []] [],
    Simple [''t_con_max''] [Call ''np.argmax'' []] [''global_con_epochs'', ''times''],
    Simple [] [Call ''print'' []] [''times'', ''t_con_max''],
    Simple [''con_epochs_matrix''] [Call ''con_epochs.get_data'' [''output'']] [''con_epochs'',
        ''t_con_max''],
    Simple [''fig''] [Call ''plt.figure'' []] [],
    Simple [''im''] [Call ''plt.imshow'' []] [''con_epochs_matrix''],
    Simple [] [Call ''fig.colorbar'' [''label'']] [''fig'', ''im''],
    Simple [] [Call ''plt.ylabel'' []] [],
    Simple [] [Call ''plt.xlabel'' []] [],
    Simple [] [Call ''plt.show'' []] [],
    Simple [] [Call ''plot_sensors_connectivity'' []] [''epochs'', ''con_epochs_matrix'']]"

text \<open>\<^verbatim>\<open>src/EEGMEG1-preprocessing/1/4_20_event_arrays.ipynb\<close>\<close>

definition events_nb :: "stmt list" where
  "events_nb = [
    Import ''numpy'' [],
    Import ''mne'' [],
    Simple [''sample_data_folder''] [Call ''mne.datasets.sample.data_path'' []] [],
    Simple [''sample_data_raw_file''] [] [''sample_data_folder''],
    Simple [''raw''] [Call ''mne.io.read_raw_fif'' []] [''sample_data_raw_file''],
    Simple [] [Call ''raw.crop'' [''tmax''], Call ''raw.crop().load_data'' []] [''raw''],
    Simple [] [Call ''raw.copy'' [], Call ''raw.copy().pick'' [''picks''],
        Call ''raw.copy().pick().plot'' [''start'', ''duration'']] [''raw''],
    Simple [''events''] [Call ''mne.find_events'' [''stim_channel'']] [''raw''],
    Simple [] [Call ''print'' []] [''events''],
    Simple [''testing_data_folder''] [Call ''mne.datasets.testing.data_path'' []] [],
    Simple [''eeglab_raw_file''] [] [''testing_data_folder''],
    Simple [''eeglab_raw''] [Call ''mne.io.read_raw_eeglab'' []] [''eeglab_raw_file''],
    Simple [] [Call ''print'' []] [''eeglab_raw''],
    Simple [] [Call ''len'' [], Call ''print'' []] [''eeglab_raw''],
    Simple [] [Call ''set'' [], Call ''print'' []] [''eeglab_raw''],
    Simple [] [Call ''set'' [], Call ''print'' []] [''eeglab_raw''],
    Simple [] [Call ''print'' []] [''eeglab_raw''],
    Simple [''events_from_annot'', ''event_dict''] [Call ''mne.events_from_annotations'' []]
        [''eeglab_raw''],
    Simple [] [Call ''print'' []] [''event_dict''],
    Simple [] [Call ''print'' []] [''events_from_annot''],
    Simple [''custom_mapping''] [] [],
    Simple [''events_from_annot'', ''event_dict'']
        [Call ''mne.events_from_annotations'' [''event_id'']] [''eeglab_raw'',
        ''custom_mapping''],
    Simple [] [Call ''print'' []] [''event_dict''],
    Simple [] [Call ''print'' []] [''events_from_annot''],
    Simple [''mapping''] [] [],
    Simple [''annot_from_events''] [Call ''mne.annotations_from_events'' [''events'',
        ''event_desc'', ''sfreq'', ''orig_time'']] [''events'', ''mapping'', ''raw''],
    Simple [] [Call ''raw.set_annotations'' []] [''raw'', ''annot_from_events''],
    Simple [] [Call ''raw.plot'' [''start'', ''duration'']] [''raw''],
    Simple [''rem_annot''] [Call ''mne.Annotations'' [''onset'', ''duration'',
        ''description'']] [],
    Simple [] [Call ''raw.set_annotations'' []] [''raw'', ''rem_annot''],
    Simple [''rem_events'', ''rem_event_dict'']
        [Call ''mne.events_from_annotations'' [''chunk_duration'']] [''raw''],
    Simple [] [Call ''np.round'' [], Call ''print'' []] [''rem_events'', ''raw'']]"


definition notebooks :: "(string \<times> stmt list) list" where
  "notebooks =
     [(''unnamed/part_000'', granger_nb),
      (''unnamed/part_001'', seed_tfr_nb),
      (''unnamed/part_002'', coherency_nb),
      (''unnamed/part_003'', var_nb),
      (''EEGMEG3-timefrequency/2/1_mne_inverse_coherence_epochs.ipynb'', inverse_coherence_nb),
      (''EEGMEG3-timefrequency/2/2_mne_inverse_connectivity_spectrum.ipynb'', inverse_spectrum_nb),
      (''EEGMEG3-timefrequency/2/5_mne_inverse_envelope_correlation.ipynb'', envelope_nb),
      (''EEGMEG3-timefrequency/2/11_compare_connectivity_over_time_over_trial.ipynb'', compare_nb),
      (''EEGMEG1-preprocessing/1/4_20_event_arrays.ipynb'', events_nb)]"

subsection \<open>Reading the statement lists\<close>

text \<open>
  The simple statements of a statement in source order: a loop is its header (the loop
  variables are assigned from the iterable) followed by its body, a conditional is its test
  followed by both branches, a handler binds its name. \<open>all_lines\<close> enters function
  bodies, \<open>top_lines\<close> does not (a body runs when the function is called).
\<close>

fun lines_of :: "bool \<Rightarrow> stmt \<Rightarrow> stmt list" where
  "lines_of b (FunctionDef f ps body) = (if b then concat (map (lines_of b) body) else [])"
| "lines_of b (For ts cs us body) = Simple ts cs us # concat (map (lines_of b) body)"
| "lines_of b (IfStmt cs us s1 s2) =
     Simple [] cs us # concat (map (lines_of b) s1) @ concat (map (lines_of b) s2)"
| "lines_of b (Try body hs) = concat (map (lines_of b) body) @ concat (map (lines_of b) hs)"
| "lines_of b (ExceptHandler c n body) = Simple [n] [] [] # concat (map (lines_of b) body)"
| "lines_of b s = [s]"

definition all_lines :: "stmt list \<Rightarrow> stmt list" where
  "all_lines nb = concat (map (lines_of True) nb)"


fun calls_of :: "stmt \<Rightarrow> call list" where
  "calls_of (Simple ts cs us) = cs"
| "calls_of s = []"

definition all_calls :: "stmt list \<Rightarrow> call list" where
  "all_calls nb = concat (map calls_of (all_lines nb))"

fun imports_of :: "stmt \<Rightarrow> (string \<times> string list) list" where
  "imports_of (Import m ns) = [(m, ns)]"
| "imports_of s = []"

definition imported_modules :: "stmt list \<Rightarrow> (string \<times> string list) list" where
  "imported_modules nb = concat (map imports_of (all_lines nb))"

fun class_defs_of :: "stmt \<Rightarrow> string list" where
  "class_defs_of (ClassDef c) = [c]"
| "class_defs_of (FunctionDef f ps body) = concat (map class_defs_of body)"
| "class_defs_of (For ts cs us body) = concat (map class_defs_of body)"
| "class_defs_of (IfStmt cs us s1 s2) = concat (map class_defs_of s1) @ concat (map class_defs_of s2)"
| "class_defs_of (Try body hs) = concat (map class_defs_of body) @ concat (map class_defs_of hs)"
| "class_defs_of (ExceptHandler c n body) = concat (map class_defs_of body)"
| "class_defs_of s = []"

definition class_defs :: "stmt list \<Rightarrow> string list" where
  "class_defs nb = concat (map class_defs_of nb)"

fun function_defs_of :: "stmt \<Rightarrow> (string \<times> stmt list) list" where
  "function_defs_of (FunctionDef f ps body) = (f, body) # concat (map function_defs_of body)"
| "function_defs_of (For ts cs us body) = concat (map function_defs_of body)"
| "function_defs_of (IfStmt cs us s1 s2) =
     concat (map function_defs_of s1) @ concat (map function_defs_of s2)"
| "function_defs_of (Try body hs) =
     concat (map function_defs_of body) @ concat (map function_defs_of hs)"
| "function_defs_of (ExceptHandler c n body) = concat (map function_defs_of body)"
| "function_defs_of s = []"

definition function_defs :: "stmt list \<Rightarrow> (string \<times> stmt list) list" where
  "function_defs nb = concat (map function_defs_of nb)"

text \<open>A dotted name: the part before the first dot and the part after the last.\<close>

definition first_component :: "string \<Rightarrow> string" where
  "first_component s = takeWhile (\<lambda>c. c \<noteq> CHR ''.'') s"

definition last_component :: "string \<Rightarrow> string" where
  "last_component s = rev (takeWhile (\<lambda>c. c \<noteq> CHR ''.'') (rev s))"

subsection \<open>Where the data comes from\<close>












subsection \<open>Writing files, interfaces, threads and processes\<close>



definition is_concurrency_module :: "string \<times> string list \<Rightarrow> bool" where
  "is_concurrency_module m =
     (first_component (fst m) \<in> set [''threading'', ''_thread'', ''multiprocessing'',
        ''concurrent'', ''asyncio'', ''subprocess'', ''joblib'', ''dask'', ''ray'']
      \<or> fst m = ''os'')"

definition is_spawn :: "call \<Rightarrow> bool" where
  "is_spawn c = (last_component (callee c) \<in> set [''Thread'', ''Timer'', ''start_new_thread'',
     ''Process'', ''Pool'', ''ThreadPoolExecutor'', ''ProcessPoolExecutor'', ''Parallel'',
     ''delayed'', ''Popen'', ''fork'', ''system'', ''spawn'', ''create_task'', ''run_in_executor''])"

definition creates_thread_or_process :: "stmt list \<Rightarrow> bool" where
  "creates_thread_or_process nb =
     (list_ex is_concurrency_module (imported_modules nb) \<or> list_ex is_spawn (all_calls nb))"

definition n_jobs_calls :: "stmt list \<Rightarrow> call list" where
  "n_jobs_calls nb = filter (\<lambda>c. ''n_jobs'' \<in> set (kwargs c)) (all_calls nb)"

subsection \<open>Functions of the notebooks\<close>

text \<open>A call plots when it goes to \<open>matplotlib.pyplot\<close> or is a plot method of an object.\<close>

definition is_plot_call :: "call \<Rightarrow> bool" where
  "is_plot_call c =
     (first_component (callee c) = ''plt''
      \<or> last_component (callee c) \<in> set [''plot'', ''plot_topo'', ''imshow''])"

definition is_plotting_helper :: "stmt list \<Rightarrow> bool" where
  "is_plotting_helper body = list_ex is_plot_call (all_calls body)"

definition function_names :: "stmt list \<Rightarrow> string list" where
  "function_names nb = map fst (function_defs nb)"

definition body_of :: "stmt list \<Rightarrow> string \<Rightarrow> stmt list" where
  "body_of nb f = (case map_of (function_defs nb) f of None \<Rightarrow> [] | Some body \<Rightarrow> body)"

section \<open>Concrete inputs\<close>

text \<open>
  Small inputs on which the theorems below are evaluated. \<open>example_conn\<close> stands for
  the connectivity call on two frequencies; \<open>example_predict\<close> and \<open>small_predict\<close> stand
  for \<open>conn.predict\<close>.
\<close>

definition example_conn :: "gc_method \<Rightarrow> indices \<Rightarrow> py_exception + ndarray" where
  "example_conn m ix =
     Inr \<lparr>shape = [1, 2],
          entries = (if ix = ([[0]], [[1]]) then (if m = GC then [3, 5] else [1, 1])
                     else (if m = GC then [1, 2] else [2, 0]))\<rparr>"









section \<open>Facts about rounding\<close>

lemma fl64_minus: "fl64 (- x) = - fl64 x"
  by (simp add: fl64_def ulp64_def sgn_minus)

lemma fsub_swap: "fsub y x = - fsub x y"
proof -
  have "fl64 (y - x) = fl64 (- (x - y))" by simp
  then show ?thesis unfolding fsub_def by (simp only: fl64_minus)
qed

lemma fsub_minus_minus: "fsub (- x) (- y) = - fsub x y"
proof -
  have "fl64 (- x - - y) = fl64 (- (x - y))" by simp
  then show ?thesis unfolding fsub_def by (simp only: fl64_minus)
qed

lemma rne_of_int: "rne (of_int m) = m"
  by (simp add: rne_def)



lemma ulp64_pos: "0 < ulp64 x"
  by (simp add: ulp64_def)




lemma fl64_one: "fl64 1 = 1"
  by (simp add: fl64_def ulp64_def rne_def powr_minus field_simps)


lemma fl64_dyadic_pos:
  assumes m: "0 < m" and b: "m < 2 ^ 53"
  shows "fl64 (of_int m * 2 powr of_int k) = of_int m * 2 powr of_int k"
proof -
  define em where "em = \<lfloor>log 2 (of_int m)\<rfloor>"
  define x :: real where "x = of_int m * 2 powr of_int k"
  have mpos: "0 < (of_int m :: real)" using m by simp
  have xpos: "0 < x" using mpos by (simp add: x_def)
  have lo: "0 \<le> em"
    unfolding em_def using m by (simp add: zero_le_log_cancel_iff)
  have "log 2 (of_int m) < 53"
  proof -
    have "(of_int m :: real) < 2 powr 53" using b by (simp add: of_int_less_numeral_power_cancel_iff)
    then show ?thesis using mpos by (simp add: log_less_iff)
  qed
  then have hi: "em \<le> 52" unfolding em_def by (simp add: floor_less_iff [symmetric] less_le_not_le)
  have lx: "log 2 x = log 2 (of_int m) + of_int k"
    using mpos by (simp add: x_def log_mult)
  have fx: "\<lfloor>log 2 x\<rfloor> = em + k" by (simp add: lx em_def)
  have u: "ulp64 x = 2 powr of_int (em + k - 52)"
    using xpos fx by (simp add: ulp64_def)
  have e1: "(of_int k :: real) - of_int (em + k - 52) = of_int (52 - em)" by simp
  have "(2::real) powr of_int k / 2 powr of_int (em + k - 52) = 2 powr of_int (52 - em)"
    by (simp only: powr_diff [symmetric] e1)
  also have "\<dots> = 2 ^ nat (52 - em)"
    using hi by (subst powr_real_of_int) auto
  finally have e2: "(2::real) powr of_int k / 2 powr of_int (em + k - 52) = 2 ^ nat (52 - em)" .
  have "x / ulp64 x = of_int m * (2 powr of_int k / 2 powr of_int (em + k - 52))"
    by (simp only: u) (simp only: x_def times_divide_eq_right)
  then have q: "x / ulp64 x = of_int (m * 2 ^ nat (52 - em))"
    by (simp only: e2) simp
  have "fl64 x = ulp64 x * of_int (rne (x / ulp64 x))"
    using xpos by (simp add: fl64_def sgn_if)
  also have "\<dots> = ulp64 x * (x / ulp64 x)"
    unfolding q by (simp only: rne_of_int)
  also have "\<dots> = x" using ulp64_pos [of x] by simp
  finally show ?thesis by (simp add: x_def)
qed

lemma fl64_dyadic:
  assumes "\<bar>m\<bar> < 2 ^ 53"
  shows "fl64 (of_int m * 2 powr of_int k) = of_int m * 2 powr of_int k"
proof -
  consider "m = 0" | "0 < m" | "m < 0" by linarith
  then show ?thesis
  proof cases
    case 1
    then show ?thesis by (simp add: fl64_def)
  next
    case 2
    then show ?thesis using assms by (intro fl64_dyadic_pos) auto
  next
    case 3
    then have "fl64 (of_int (- m) * 2 powr of_int k) = of_int (- m) * 2 powr of_int k"
      using assms by (intro fl64_dyadic_pos) auto
    then have "fl64 (- (of_int m * 2 powr of_int k)) = - (of_int m * 2 powr of_int k)"
      by simp
    then show ?thesis by (simp only: fl64_minus)
  qed
qed

lemma fl64_of_int: "\<bar>m\<bar> < 2 ^ 53 \<Longrightarrow> fl64 (of_int m) = of_int m"
  using fl64_dyadic [of m 0] by simp

lemma fl64_numeral: "(numeral n :: int) < 2 ^ 53 \<Longrightarrow> fl64 (numeral n) = numeral n"
  using fl64_of_int [of "numeral n"] by simp











section \<open>Facts about broadcasting\<close>

lemma broadcast_rev_Nil2: "broadcast_rev xs [] = Some xs"
  by (cases xs) simp_all

lemma broadcast_rev_commute: "broadcast_rev xs ys = broadcast_rev ys xs"
  by (induction xs ys rule: broadcast_rev.induct) (auto simp: broadcast_rev_Nil2)

lemma broadcast_shapes_commute: "broadcast_shapes s t = broadcast_shapes t s"
  by (simp add: broadcast_shapes_def broadcast_rev_commute)

lemma np_subtract_swap:
  "np_subtract b a = (case np_subtract a b of Inl e \<Rightarrow> Inl e | Inr r \<Rightarrow> Inr (np_negative r))"
  unfolding np_subtract_def np_binop_def np_negative_def
  by (simp add: broadcast_shapes_commute [of "shape b" "shape a"] fsub_swap [of "entries a ! _"]
      split: option.split)

lemma mixed_radix_lt:
  fixes k d r p :: nat
  assumes "k < d" and "r < p"
  shows "k + d * r < d * p"
proof -
  have "d * Suc r \<le> d * p" using assms(2) by (intro mult_le_mono2) simp
  then show ?thesis using assms(1) by simp
qed

lemma div_lt_prod:
  fixes i d p :: nat
  assumes "i < d * p"
  shows "i div d < p"
proof -
  have "0 < d" using assms by (cases "d = 0") auto
  then show ?thesis using assms by (simp add: less_mult_imp_div_less mult.commute)
qed

lemma ravel_unravel: "i < prod_list s \<Longrightarrow> ravel_rev s (unravel_rev s i) = i"
proof (induction s arbitrary: i)
  case Nil
  then show ?case by simp
next
  case (Cons d ds)
  have "i div d < prod_list ds" using Cons.prems by (simp add: div_lt_prod)
  then have "ravel_rev ds (unravel_rev ds (i div d)) = i div d" by (rule Cons.IH)
  then show ?case by simp
qed

lemma ravel_rev_lt:
  "broadcast_rev xs ys = Some s \<Longrightarrow> i < prod_list s \<Longrightarrow> ravel_rev xs (unravel_rev s i) < prod_list xs"
proof (induction xs ys arbitrary: s i rule: broadcast_rev.induct)
  case (1 ys)
  then show ?case by simp
next
  case (2 x xs)
  then show ?case by (simp del: ravel_rev.simps unravel_rev.simps add: ravel_unravel)
next
  case (3 x xs y ys)
  from "3.prems"(1) obtain d s' where s: "s = d # s'" and b: "broadcast_rev xs ys = Some s'"
    and d: "x = 1 \<or> d = x"
    by (auto split: if_splits)
  have i': "i div d < prod_list s'" using "3.prems"(2) s by (simp add: div_lt_prod)
  have r: "ravel_rev xs (unravel_rev s' (i div d)) < prod_list xs"
  proof (cases "x = y \<or> y = 1")
    case True
    show ?thesis using "3.IH"(1) [OF True b i'] .
  next
    case False
    then have "x = 1" using "3.prems"(1) by (auto split: if_splits)
    then show ?thesis using "3.IH"(2) [OF False _ b i'] by simp
  qed
  show ?case
  proof (cases "x = 1")
    case True
    then show ?thesis using r s by simp
  next
    case False
    then have dx: "d = x" using d by simp
    have "0 < x" using "3.prems"(2) s dx by (cases "x = 0") auto
    then have "i mod x < x" by simp
    then show ?thesis using r s dx False by (simp add: mixed_radix_lt)
  qed
qed

lemma bindex_lt_left:
  assumes "broadcast_shapes s t = Some r" and "i < prod_list r"
  shows "bindex s r i < prod_list s"
proof -
  from assms(1) obtain r' where b: "broadcast_rev (rev s) (rev t) = Some r'" and r: "r = rev r'"
    by (auto simp: broadcast_shapes_def)
  have "i < prod_list r'" using assms(2) r by simp
  from ravel_rev_lt [OF b this] show ?thesis by (simp add: bindex_def r)
qed

lemma bindex_lt_right:
  assumes "broadcast_shapes s t = Some r" and "i < prod_list r"
  shows "bindex t r i < prod_list t"
  using bindex_lt_left [of t s r i] assms by (simp add: broadcast_shapes_commute)

lemma bindex_same: "i < prod_list s \<Longrightarrow> bindex s s i = i"
  by (simp add: bindex_def ravel_unravel)

lemma broadcast_rev_same: "broadcast_rev s s = Some s"
  by (induction s) auto

lemma broadcast_shapes_same: "broadcast_shapes s s = Some s"
  by (simp add: broadcast_shapes_def broadcast_rev_same)

lemma wf_np_binop: "np_binop f a b = Inr r \<Longrightarrow> wf_array r"
  by (auto simp: np_binop_def wf_array_def split: option.splits)

lemma np_subtract_negative:
  assumes wa: "wf_array a" and wb: "wf_array b" and r: "np_subtract a b = Inr r"
  shows "np_subtract (np_negative a) (np_negative b) = Inr (np_negative r)"
proof -
  from r obtain s where s: "broadcast_shapes (shape a) (shape b) = Some s"
    and rs: "r = \<lparr>shape = s, entries = map (\<lambda>i. fsub (entries a ! bindex (shape a) s i)
                                            (entries b ! bindex (shape b) s i)) [0 ..< prod_list s]\<rparr>"
    by (auto simp: np_subtract_def np_binop_def split: option.splits)
  have "\<And>i. i < prod_list s \<Longrightarrow>
      fsub (map uminus (entries a) ! bindex (shape a) s i) (map uminus (entries b) ! bindex (shape b) s i)
      = - fsub (entries a ! bindex (shape a) s i) (entries b ! bindex (shape b) s i)"
  proof -
    fix i assume i: "i < prod_list s"
    have "bindex (shape a) s i < length (entries a)"
      using bindex_lt_left [OF s i] wa by (simp add: wf_array_def)
    moreover have "bindex (shape b) s i < length (entries b)"
      using bindex_lt_right [OF s i] wb by (simp add: wf_array_def)
    ultimately show "fsub (map uminus (entries a) ! bindex (shape a) s i) (map uminus (entries b) ! bindex (shape b) s i)
      = - fsub (entries a ! bindex (shape a) s i) (entries b ! bindex (shape b) s i)"
      by (simp add: fsub_minus_minus)
  qed
  then show ?thesis
    by (simp add: np_subtract_def np_binop_def np_negative_def s rs)
qed

lemma np_binop_same_shape:
  assumes "wf_array a" and "wf_array b" and "shape a = shape b"
  shows "np_binop f a b = Inr \<lparr>shape = shape a, entries = map2 f (entries a) (entries b)\<rparr>"
proof -
  have len: "length (entries a) = prod_list (shape a)" "length (entries b) = prod_list (shape a)"
    using assms by (simp_all add: wf_array_def)
  have "map (\<lambda>i. f (entries a ! bindex (shape a) (shape a) i) (entries b ! bindex (shape a) (shape a) i))
          [0 ..< prod_list (shape a)] = map2 f (entries a) (entries b)"
    by (rule nth_equalityI) (simp_all add: len bindex_same)
  then show ?thesis
    using assms(3) by (simp add: np_binop_def broadcast_shapes_same)
qed

lemma np_subtract_same_shape:
  "wf_array a \<Longrightarrow> wf_array b \<Longrightarrow> shape a = shape b \<Longrightarrow>
   np_subtract a b = Inr \<lparr>shape = shape a, entries = map2 fsub (entries a) (entries b)\<rparr>"
  unfolding np_subtract_def by (rule np_binop_same_shape)


section \<open>Granger causality notebook: the net scores change sign with the direction\<close>

lemma granger_swap:
  assumes "granger_scores conn a b = Inr (net_gc, net_gc_tr, trgc)"
  shows "granger_scores conn b a = Inr (np_negative net_gc, np_negative net_gc_tr, np_negative trgc)"
proof -
  from assms obtain gc_ab gc_ba gc_tr_ab gc_tr_ba where
    c1: "conn GC ([a], [b]) = Inr gc_ab" and c2: "conn GC ([b], [a]) = Inr gc_ba"
    and n1: "np_subtract gc_ab gc_ba = Inr net_gc"
    and c3: "conn GC_TR ([a], [b]) = Inr gc_tr_ab" and c4: "conn GC_TR ([b], [a]) = Inr gc_tr_ba"
    and n2: "np_subtract gc_tr_ab gc_tr_ba = Inr net_gc_tr"
    and n3: "np_subtract net_gc net_gc_tr = Inr trgc"
    by (auto simp: granger_scores_def bind_exc_def indices_ab_def indices_ba_def split: sum.splits)
  have w1: "wf_array net_gc" using n1 unfolding np_subtract_def by (rule wf_np_binop)
  have w2: "wf_array net_gc_tr" using n2 unfolding np_subtract_def by (rule wf_np_binop)
  have s1: "np_subtract gc_ba gc_ab = Inr (np_negative net_gc)"
    by (simp add: np_subtract_swap [of gc_ba gc_ab] n1)
  have s2: "np_subtract gc_tr_ba gc_tr_ab = Inr (np_negative net_gc_tr)"
    by (simp add: np_subtract_swap [of gc_tr_ba gc_tr_ab] n2)
  have s3: "np_subtract (np_negative net_gc) (np_negative net_gc_tr) = Inr (np_negative trgc)"
    using np_subtract_negative [OF w1 w2 n3] .
  show ?thesis
    by (simp add: granger_scores_def bind_exc_def indices_ab_def indices_ba_def c1 c2 c3 c4 s1 s2 s3)
qed

lemma example_scores:
  "granger_scores example_conn [0] [1] =
     Inr (\<lparr>shape = [1, 2], entries = [2, 3]\<rparr>, \<lparr>shape = [1, 2], entries = [- 1, 1]\<rparr>,
          \<lparr>shape = [1, 2], entries = [3, 2]\<rparr>)"
  by (simp add: granger_scores_def bind_exc_def example_conn_def indices_ab_def indices_ba_def
      np_subtract_same_shape wf_array_def fsub_def fl64_numeral fl64_minus fl64_one)

text \<open>
  Claim C8. The net Granger score is \<open>net_gc = gc_ab.get_data() - gc_ba.get_data()\<close>, the
  time-reversed one is \<open>net_gc_tr = gc_tr_ab.get_data() - gc_tr_ba.get_data()\<close> and
  \<open>trgc = net_gc - net_gc_tr\<close>. Exchanging the seed and the target group (the notebook
  run with \<open>signals_a\<close> and \<open>signals_b\<close> exchanged, so that \<open>indices_ab\<close> and
  \<open>indices_ba\<close> swap in both computations) negates \<open>net_gc\<close>, \<open>net_gc_tr\<close> and
  \<open>trgc\<close> entry by entry, exactly, also under float64 rounding.
\<close>

theorem net_gc_antisymmetric:
  assumes "granger_scores conn a b = Inr (net_gc, net_gc_tr, trgc)"
  shows "granger_scores conn b a = Inr (np_negative net_gc, np_negative net_gc_tr, np_negative trgc)"
  using assms by (rule granger_swap)

theorem net_gc_antisymmetric_witness:
  "granger_scores example_conn [0] [1] =
     Inr (\<lparr>shape = [1, 2], entries = [2, 3]\<rparr>, \<lparr>shape = [1, 2], entries = [- 1, 1]\<rparr>,
          \<lparr>shape = [1, 2], entries = [3, 2]\<rparr>)
   \<and> granger_scores example_conn [1] [0] =
     Inr (\<lparr>shape = [1, 2], entries = [- 2, - 3]\<rparr>, \<lparr>shape = [1, 2], entries = [1, - 1]\<rparr>,
          \<lparr>shape = [1, 2], entries = [- 3, - 2]\<rparr>)"
  using net_gc_antisymmetric [OF example_scores] example_scores by (simp add: np_negative_def)

section \<open>Granger causality notebook: the conservative rank estimate\<close>





section \<open>Granger causality notebook: the rank-deficient call\<close>



section \<open>VAR notebook: data, prediction and residuals\<close>





section \<open>Over-time / over-trials notebook: the global connectivity is a mean\<close>















section \<open>Event-parsing notebook: the REM annotations are complete triplets\<close>



section \<open>Where the notebooks take their data from\<close>



section \<open>The notebooks write no file\<close>


section \<open>The notebooks create no thread and no process\<close>

text \<open>
  Claim C6. No notebook imports a module for threads or processes or calls a function that
  creates one. The only configuration of parallelism in the code is the keyword argument
  \<open>n_jobs\<close>, passed to the library's \<open>spectral_connectivity_epochs\<close> at three places
  (among them the seed-based time-frequency notebook, \<open>unnamed/part_001\<close>); each notebook
  is otherwise one sequence of statements.
\<close>

theorem notebooks_create_no_thread:
  "map (\<lambda>(f, nb). (f, creates_thread_or_process nb, n_jobs_calls nb)) notebooks
     = [(''unnamed/part_000'', False, []),
      (''unnamed/part_001'', False, [Call ''spectral_connectivity_epochs'' [''indices'', ''method'', ''mode'', ''sfreq'', ''cwt_freqs'', ''cwt_n_cycles'', ''n_jobs'']]),
      (''unnamed/part_002'', False, []),
      (''unnamed/part_003'', False, []),
      (''EEGMEG3-timefrequency/2/1_mne_inverse_coherence_epochs.ipynb'', False, [Call ''spectral_connectivity_epochs'' [''method'', ''mode'', ''indices'', ''sfreq'', ''fmin'', ''fmax'', ''faverage'', ''n_jobs'']]),
      (''EEGMEG3-timefrequency/2/2_mne_inverse_connectivity_spectrum.ipynb'', False, [Call ''spectral_connectivity_epochs'' [''method'', ''mode'', ''sfreq'', ''fmin'', ''fmax'', ''mt_adaptive'', ''n_jobs'']]),
      (''EEGMEG3-timefrequency/2/5_mne_inverse_envelope_correlation.ipynb'', False, []),
      (''EEGMEG3-timefrequency/2/11_compare_connectivity_over_time_over_trial.ipynb'', False, []),
      (''EEGMEG1-preprocessing/1/4_20_event_arrays.ipynb'', False, [])]"
  by code_simp

section \<open>The notebooks define no class; the functions they define\<close>

text \<open>
  Claim C7, as amended. No notebook contains a class definition, so every object a
  notebook handles is an instance of a type of the libraries or of Python. The functions
  defined in notebook code are the plotting helpers \<open>plot_connectivity_circle\<close>,
  \<open>plot_con_matrix\<close>, \<open>plot_corr\<close> and \<open>plot_degree\<close>, and the generator \<open>bp_gen\<close> of
  the envelope-correlation notebook, which plots nothing: its only call is the library's
  \<open>mne.filter.filter_data\<close>.
\<close>

theorem notebooks_define_no_class:
  "map (\<lambda>(f, nb). (f, class_defs nb, map (\<lambda>(g, b). (g, is_plotting_helper b)) (function_defs nb))) notebooks
     = [(''unnamed/part_000'', [], []),
      (''unnamed/part_001'', [], []),
      (''unnamed/part_002'', [], [(''plot_connectivity_circle'', True)]),
      (''unnamed/part_003'', [], []),
      (''EEGMEG3-timefrequency/2/1_mne_inverse_coherence_epochs.ipynb'', [], []),
      (''EEGMEG3-timefrequency/2/2_mne_inverse_connectivity_spectrum.ipynb'', [], []),
      (''EEGMEG3-timefrequency/2/5_mne_inverse_envelope_correlation.ipynb'', [], [(''bp_gen'', False), (''plot_corr'', True), (''plot_degree'', True)]),
      (''EEGMEG3-timefrequency/2/11_compare_connectivity_over_time_over_trial.ipynb'', [], [(''plot_con_matrix'', True)]),
      (''EEGMEG1-preprocessing/1/4_20_event_arrays.ipynb'', [], [])]
   \<and> map callee (all_calls (body_of envelope_nb ''bp_gen'')) = [''mne.filter.filter_data'']"
  by code_simp

text \<open>
  Claim C7 as stated (the only functions defined are the plotting helpers
  \<open>plot_connectivity_circle\<close>, \<open>plot_con_matrix\<close> and \<open>plot_degree\<close>) fails on the
  envelope-correlation notebook, which defines \<open>bp_gen\<close>, a function that is none of the
  three and makes no plotting call.
\<close>

theorem bp_gen_is_no_plotting_helper:
  "''bp_gen'' \<in> set (function_names envelope_nb)
   \<and> ''bp_gen'' \<notin> set [''plot_connectivity_circle'', ''plot_con_matrix'', ''plot_degree'']
   \<and> map callee (all_calls (body_of envelope_nb ''bp_gen'')) = [''mne.filter.filter_data'']
   \<and> \<not> is_plotting_helper (body_of envelope_nb ''bp_gen'')"
  by code_simp

end
